theory Spec2Isabelle
  imports Main
begin

section \<open>Python arithmetic used by the calculation\<close>

text \<open>
  All amounts are Python integers (unbounded), modelled as \<open>int\<close>. The only operation of
  the calculation that leaves the integers is \<^verbatim>\<open>math.floor(goodwill / 2)\<close>: on two
  integers \<^verbatim>\<open>/\<close> is true division, whose result is the binary64 float nearest to the
  exact quotient (ties to the even significand), and which raises OverflowError when that
  float would not be finite. \<^verbatim>\<open>math.floor\<close> then returns the largest integer not above
  the float. Both steps are modelled exactly, in integer arithmetic.
\<close>

datatype error = OverflowError

text \<open>\<^verbatim>\<open>int.bit_length\<close>: the number of binary digits of a natural number.\<close>

fun bit_length :: "nat \<Rightarrow> nat" where
  "bit_length n = (if n = 0 then 0 else Suc (bit_length (n div 2)))"

declare bit_length.simps [simp del]

text \<open>
  Rounding a natural number to 53 significant bits, ties to even: the binary64 float
  nearest to it (binary64 has a 53-bit significand; the exponent range is checked where
  the float is built).
\<close>

definition round_to_53_bits :: "nat \<Rightarrow> nat" where
  "round_to_53_bits m =
     (let e = bit_length m in
      if e \<le> 53 then m
      else
        let sh = e - 53;
            q = m div 2 ^ sh;
            r = m mod 2 ^ sh;
            half = 2 ^ (sh - 1)
        in (if half < r \<or> (r = half \<and> odd q) then q + 1 else q) * 2 ^ sh)"

text \<open>A finite binary64 value, kept exactly: \<open>Float64 s e\<close> stands for \<open>s * 2 ^ e\<close>.\<close>

datatype float64 = Float64 int int

text \<open>
  \<^verbatim>\<open>n / 2\<close> for an integer \<open>n\<close>. Halving a float is exact, so the quotient is the
  rounded numerator with the exponent lowered by one; it overflows when it reaches
  \<open>2 ^ 1024\<close>.
\<close>

definition int_truediv_2 :: "int \<Rightarrow> error + float64" where
  "int_truediv_2 n =
     (let m = round_to_53_bits (nat \<bar>n\<bar>) in
      if 2 ^ 1025 \<le> m then Inl OverflowError
      else Inr (Float64 (sgn n * int m) (- 1)))"

text \<open>\<^verbatim>\<open>math.floor\<close> of a finite float.\<close>

definition math_floor :: "float64 \<Rightarrow> int" where
  "math_floor x =
     (case x of Float64 s e \<Rightarrow>
        if 0 \<le> e then s * 2 ^ nat e else s div 2 ^ nat (- e))"


section \<open>Data model\<close>

text \<open>The keyword arguments of \<^verbatim>\<open>calculate_distributable_amount\<close> (test.py), which are
  also the widget values read by the calculation in app.py.\<close>

record calc_input =
  capital_stock :: int
  capital_reserve :: int
  other_capital_surplus :: int
  earned_reserve :: int
  other_retained_earnings :: int
  treasury_stock :: int
  goodwill :: int
  deferred_assets :: int
  securities_valuation :: int
  land_revaluation :: int
  disposal_treasury_stock :: int
  disposal_consideration :: int
  canceled_treasury_stock :: int
  capital_reduction :: int
  reserve_reduction :: int
  surplus_to_capital :: int
  dividend_amount :: int
  dividend_reserve :: int
  interim_settlement :: bool
  interim_profit :: int
  interim_loss :: int
  interim_treasury_disposal :: int

text \<open>The dictionary returned by \<^verbatim>\<open>calculate_distributable_amount\<close>: its eleven keys.\<close>

record calc_result =
  surplus_amount :: int
  treasury_stock_adjustments :: int
  capital_reserve_adjustments :: int
  dividend_adjustments :: int
  treasury_stock_abs :: int
  additional_treasury_adjustments :: int
  interim_settlement_adjustments :: int
  goodwill_deferred_deduction :: int
  valuation_adjustments :: int
  net_assets_adjustment :: int
  distributable_amount :: int

text \<open>The dictionary app.py stores in \<^verbatim>\<open>st.session_state.results\<close>: the same eleven keys
  and ten of the inputs, copied.\<close>

record app_results = calc_result +
  stored_capital_stock :: int
  stored_capital_reserve :: int
  stored_other_capital_surplus :: int
  stored_earned_reserve :: int
  stored_other_retained_earnings :: int
  stored_treasury_stock :: int
  stored_goodwill :: int
  stored_deferred_assets :: int
  stored_securities_valuation :: int
  stored_land_revaluation :: int


section \<open>The reference calculation (test.py)\<close>

definition calculate_distributable_amount :: "calc_input \<Rightarrow> error + calc_result" where
  "calculate_distributable_amount i =
     (let surplus = other_capital_surplus i + other_retained_earnings i;
          treasury_adj =
            disposal_consideration i - disposal_treasury_stock i - canceled_treasury_stock i;
          capital_adj = capital_reduction i + reserve_reduction i - surplus_to_capital i;
          dividend_adj = - (dividend_amount i + dividend_reserve i);
          treasury_abs = \<bar>treasury_stock i\<bar> - disposal_treasury_stock i;
          additional_adj = - disposal_consideration i;
          interim_adj =
            (if interim_settlement i
             then interim_profit i - interim_loss i + interim_treasury_disposal i
             else 0)
      in case int_truediv_2 (goodwill i) of
           Inl err \<Rightarrow> Inl err
         | Inr half \<Rightarrow>
            (let goodwill_adjustment = math_floor half;
                 deferred_asset_adjustment = deferred_assets i;
                 goodwill_deferred_adjustment = goodwill_adjustment + deferred_asset_adjustment;
                 capital_reserve_total = capital_stock i + capital_reserve i + earned_reserve i;
                 deduction =
                   (if goodwill_deferred_adjustment \<le> capital_reserve_total then 0
                    else if goodwill_deferred_adjustment
                              \<le> capital_reserve_total + other_capital_surplus i
                      then goodwill_deferred_adjustment - capital_reserve_total
                    else if goodwill_adjustment \<le> capital_reserve_total + other_capital_surplus i
                      then goodwill_deferred_adjustment - capital_reserve_total
                    else other_capital_surplus i + deferred_asset_adjustment);
                 valuation0 = 0;
                 valuation1 =
                   (if securities_valuation i < 0 then valuation0 - \<bar>securities_valuation i\<bar>
                    else valuation0);
                 valuation2 =
                   (if land_revaluation i < 0 then valuation1 - \<bar>land_revaluation i\<bar>
                    else valuation1);
                 min_net_assets = 3000000;
                 net_assets =
                   capital_stock i + capital_reserve i + earned_reserve i
                   + other_capital_surplus i + other_retained_earnings i + treasury_stock i;
                 net_adj = (if net_assets < min_net_assets then min_net_assets - net_assets else 0);
                 total =
                   surplus + treasury_adj + capital_adj + dividend_adj - treasury_abs
                   + additional_adj + interim_adj - deduction + valuation2 - net_adj
             in Inr \<lparr>surplus_amount = surplus,
                     treasury_stock_adjustments = treasury_adj,
                     capital_reserve_adjustments = capital_adj,
                     dividend_adjustments = dividend_adj,
                     treasury_stock_abs = treasury_abs,
                     additional_treasury_adjustments = additional_adj,
                     interim_settlement_adjustments = interim_adj,
                     goodwill_deferred_deduction = deduction,
                     valuation_adjustments = valuation2,
                     net_assets_adjustment = net_adj,
                     distributable_amount = total\<rparr>))"


section \<open>The calculation behind the button (app.py)\<close>

text \<open>The block run when \<^verbatim>\<open>calc_button\<close> is pressed, as a function of the widget
  values; its value is the dictionary assigned to \<^verbatim>\<open>st.session_state.results\<close>.\<close>

definition calc_button :: "calc_input \<Rightarrow> error + app_results" where
  "calc_button i =
     (let surplus = other_capital_surplus i + other_retained_earnings i;
          treasury_adj =
            disposal_consideration i - disposal_treasury_stock i - canceled_treasury_stock i;
          capital_adj = capital_reduction i + reserve_reduction i - surplus_to_capital i;
          dividend_adj = - (dividend_amount i + dividend_reserve i);
          treasury_abs = \<bar>treasury_stock i\<bar>;
          additional_adj = - disposal_consideration i;
          interim_adj =
            (if interim_settlement i
             then interim_profit i - interim_loss i + interim_treasury_disposal i
             else 0)
      in case int_truediv_2 (goodwill i) of
           Inl err \<Rightarrow> Inl err
         | Inr half \<Rightarrow>
            (let goodwill_adjustment = math_floor half;
                 deferred_asset_adjustment = deferred_assets i;
                 goodwill_deferred_adjustment = goodwill_adjustment + deferred_asset_adjustment;
                 capital_reserve_total = capital_stock i + capital_reserve i + earned_reserve i;
                 deduction =
                   (if goodwill_deferred_adjustment \<le> capital_reserve_total then 0
                    else if goodwill_deferred_adjustment
                              \<le> capital_reserve_total + other_capital_surplus i
                      then goodwill_deferred_adjustment - capital_reserve_total
                    else if goodwill_adjustment \<le> capital_reserve_total + other_capital_surplus i
                      then goodwill_deferred_adjustment - capital_reserve_total
                    else other_capital_surplus i + deferred_asset_adjustment);
                 valuation0 = 0;
                 valuation1 =
                   (if securities_valuation i < 0 then valuation0 - \<bar>securities_valuation i\<bar>
                    else valuation0);
                 valuation2 =
                   (if land_revaluation i < 0 then valuation1 - \<bar>land_revaluation i\<bar>
                    else valuation1);
                 min_net_assets = 3000000;
                 net_assets =
                   capital_stock i + capital_reserve i + earned_reserve i
                   + other_capital_surplus i + other_retained_earnings i + treasury_stock i;
                 net_adj = (if net_assets < min_net_assets then min_net_assets - net_assets else 0);
                 total =
                   surplus + treasury_adj + capital_adj + dividend_adj - treasury_abs
                   + additional_adj + interim_adj - deduction + valuation2 - net_adj
             in Inr \<lparr>surplus_amount = surplus,
                     treasury_stock_adjustments = treasury_adj,
                     capital_reserve_adjustments = capital_adj,
                     dividend_adjustments = dividend_adj,
                     treasury_stock_abs = treasury_abs,
                     additional_treasury_adjustments = additional_adj,
                     interim_settlement_adjustments = interim_adj,
                     goodwill_deferred_deduction = deduction,
                     valuation_adjustments = valuation2,
                     net_assets_adjustment = net_adj,
                     distributable_amount = total,
                     stored_capital_stock = capital_stock i,
                     stored_capital_reserve = capital_reserve i,
                     stored_other_capital_surplus = other_capital_surplus i,
                     stored_earned_reserve = earned_reserve i,
                     stored_other_retained_earnings = other_retained_earnings i,
                     stored_treasury_stock = treasury_stock i,
                     stored_goodwill = goodwill i,
                     stored_deferred_assets = deferred_assets i,
                     stored_securities_valuation = securities_valuation i,
                     stored_land_revaluation = land_revaluation i\<rparr>))"


section \<open>Inputs of the test suite\<close>

text \<open>The default arguments: every amount 0, no interim settlement.\<close>

definition defaults :: calc_input where
  "defaults =
     \<lparr>capital_stock = 0, capital_reserve = 0, other_capital_surplus = 0, earned_reserve = 0,
      other_retained_earnings = 0, treasury_stock = 0, goodwill = 0, deferred_assets = 0,
      securities_valuation = 0, land_revaluation = 0, disposal_treasury_stock = 0,
      disposal_consideration = 0, canceled_treasury_stock = 0, capital_reduction = 0,
      reserve_reduction = 0, surplus_to_capital = 0, dividend_amount = 0, dividend_reserve = 0,
      interim_settlement = False, interim_profit = 0, interim_loss = 0,
      interim_treasury_disposal = 0\<rparr>"

text \<open>\<^verbatim>\<open>test_basic_case\<close>.\<close>

definition basic_case :: calc_input where
  "basic_case =
     defaults\<lparr>capital_stock := 10000000, capital_reserve := 5000000,
              other_capital_surplus := 3000000, earned_reserve := 2000000,
              other_retained_earnings := 20000000, treasury_stock := - 2000000\<rparr>"

text \<open>\<^verbatim>\<open>test_complex_case\<close>.\<close>

definition complex_case :: calc_input where
  "complex_case =
     defaults\<lparr>capital_stock := 10000000, capital_reserve := 5000000, earned_reserve := 2000000,
              other_capital_surplus := 3000000, other_retained_earnings := 20000000,
              treasury_stock := - 3000000, goodwill := 10000000, deferred_assets := 2000000,
              securities_valuation := - 1000000, disposal_treasury_stock := 1000000,
              disposal_consideration := 1200000, canceled_treasury_stock := 500000,
              capital_reduction := 2000000, reserve_reduction := 1000000,
              surplus_to_capital := 500000, dividend_amount := 1500000,
              dividend_reserve := 150000, interim_settlement := True,
              interim_profit := 3000000, interim_loss := 500000,
              interim_treasury_disposal := 800000\<rparr>"

text \<open>The values \<^verbatim>\<open>test_complex_case\<close> asserts for it.\<close>

definition complex_case_result :: calc_result where
  "complex_case_result =
     \<lparr>surplus_amount = 23000000, treasury_stock_adjustments = - 300000,
      capital_reserve_adjustments = 2500000, dividend_adjustments = - 1650000,
      treasury_stock_abs = 2000000, additional_treasury_adjustments = - 1200000,
      interim_settlement_adjustments = 3300000, goodwill_deferred_deduction = 0,
      valuation_adjustments = - 1000000, net_assets_adjustment = 0,
      distributable_amount = 22650000\<rparr>"

text \<open>The dictionary app.py stores for the same widget values.\<close>

definition complex_case_stored :: app_results where
  "complex_case_stored =
     \<lparr>surplus_amount = 23000000, treasury_stock_adjustments = - 300000,
      capital_reserve_adjustments = 2500000, dividend_adjustments = - 1650000,
      treasury_stock_abs = 3000000, additional_treasury_adjustments = - 1200000,
      interim_settlement_adjustments = 3300000, goodwill_deferred_deduction = 0,
      valuation_adjustments = - 1000000, net_assets_adjustment = 0,
      distributable_amount = 21650000,
      stored_capital_stock = 10000000, stored_capital_reserve = 5000000,
      stored_other_capital_surplus = 3000000, stored_earned_reserve = 2000000,
      stored_other_retained_earnings = 20000000, stored_treasury_stock = - 3000000,
      stored_goodwill = 10000000, stored_deferred_assets = 2000000,
      stored_securities_valuation = - 1000000, stored_land_revaluation = 0\<rparr>"

text \<open>\<^verbatim>\<open>test_exact_minimum_net_assets\<close>: net assets of exactly 3,000,000.\<close>

definition exact_minimum_case :: calc_input where
  "exact_minimum_case = defaults\<lparr>capital_stock := 3000000\<rparr>"

text \<open>Net assets one unit below the minimum.\<close>

definition below_minimum_case :: calc_input where
  "below_minimum_case = defaults\<lparr>capital_stock := 2999999\<rparr>"

text \<open>The fourth case of \<^verbatim>\<open>test_goodwill_adjustment\<close>: half of the goodwill exceeds
  capital, reserves and other capital surplus together.\<close>

definition goodwill_case_4 :: calc_input where
  "goodwill_case_4 =
     defaults\<lparr>capital_stock := 10000000, capital_reserve := 5000000,
              earned_reserve := 2000000, other_capital_surplus := 3000000,
              other_retained_earnings := 20000000, goodwill := 50000000,
              deferred_assets := 10000000\<rparr>"

text \<open>A goodwill of \<open>2 ^ 53 + 3\<close>, whose half is not a binary64 float, against capital
  of exactly half of it rounded down, \<open>2 ^ 52 + 1\<close>.\<close>

definition rounding_case :: calc_input where
  "rounding_case =
     defaults\<lparr>capital_stock := 4503599627370497, other_capital_surplus := 5,
              goodwill := 9007199254740995\<rparr>"

text \<open>A goodwill of \<open>2 ^ 1025\<close>, whose half is beyond the largest binary64 float.\<close>

definition overflow_case :: calc_input where
  "overflow_case = defaults\<lparr>goodwill := 2 ^ 1025\<rparr>"


section \<open>The float half\<close>

text \<open>Evaluating \<open>bit_length\<close> on a numeral, one binary digit at a time.\<close>

lemma bit_length_numeral_step:
  "bit_length 0 = 0"
  "bit_length 1 = 1"
  "bit_length (Suc 0) = 1"
  "bit_length (numeral k) = Suc (bit_length (numeral k div 2))"
  by (simp_all add: bit_length.simps)

text \<open>\<open>bit_length n\<close> is the least \<open>k\<close> with \<open>n < 2 ^ k\<close>.\<close>

lemma bit_length_le: "n < 2 ^ k \<Longrightarrow> bit_length n \<le> k"
proof (induction n arbitrary: k rule: bit_length.induct)
  case (1 n)
  show ?case
  proof (cases "n = 0")
    case True
    then show ?thesis by (simp add: bit_length.simps)
  next
    case False
    with "1.prems" obtain k' where k: "k = Suc k'"
      by (cases k) auto
    with "1.prems" have "n div 2 < 2 ^ k'" by simp
    with "1.IH" [OF False] have "bit_length (n div 2) \<le> k'" .
    with False k show ?thesis by (simp add: bit_length.simps)
  qed
qed

lemma bit_length_gt: "2 ^ k \<le> n \<Longrightarrow> k < bit_length n"
proof (induction n arbitrary: k rule: bit_length.induct)
  case (1 n)
  have "(0::nat) < 2 ^ k" by simp
  with "1.prems" have nz: "n \<noteq> 0" by linarith
  show ?case
  proof (cases k)
    case 0
    with nz show ?thesis by (simp add: bit_length.simps)
  next
    case (Suc k')
    with "1.prems" have "2 ^ k' \<le> n div 2" by simp
    with "1.IH" [OF nz] have "k' < bit_length (n div 2)" .
    with nz Suc show ?thesis by (simp add: bit_length.simps)
  qed
qed

lemma less_two_power_bit_length: "n < 2 ^ bit_length n"
  using bit_length_gt [of "bit_length n" n] by (cases "n < 2 ^ bit_length n") auto

lemma two_power_bit_length_le: "0 < bit_length n \<Longrightarrow> 2 ^ (bit_length n - 1) \<le> n"
  using bit_length_le [of n "bit_length n - 1"] by (cases "n < 2 ^ (bit_length n - 1)") auto

lemma round_to_53_bits_small: "m < 2 ^ 53 \<Longrightarrow> round_to_53_bits m = m"
  using bit_length_le [of m 53] by (simp add: round_to_53_bits_def)

lemma round_to_53_bits_upper:
  assumes "m < 2 ^ k"
  shows "round_to_53_bits m \<le> 2 ^ k"
proof (cases "bit_length m \<le> 53")
  case True
  with assms show ?thesis by (simp add: round_to_53_bits_def)
next
  case False
  define sh where "sh = bit_length m - 53"
  define q where "q = m div 2 ^ sh"
  from False have e: "bit_length m = sh + 53" by (simp add: sh_def)
  have "m < 2 ^ (sh + 53)" using less_two_power_bit_length [of m] e by simp
  then have "m < 2 ^ 53 * 2 ^ sh" by (simp add: power_add mult.commute)
  then have "q < 2 ^ 53" unfolding q_def by (simp add: less_mult_imp_div_less)
  then have "q + 1 \<le> 2 ^ 53" by simp
  then have "(q + 1) * 2 ^ sh \<le> 2 ^ 53 * 2 ^ sh" by (rule mult_right_mono) simp
  also have "\<dots> = 2 ^ bit_length m" by (simp add: e power_add mult.commute)
  also have "\<dots> \<le> 2 ^ k" using bit_length_le [OF assms] by (simp add: power_increasing)
  finally have up: "(q + 1) * 2 ^ sh \<le> 2 ^ k" .
  have "q * 2 ^ sh \<le> (q + 1) * 2 ^ sh" by simp
  with up have low: "q * 2 ^ sh \<le> 2 ^ k" by linarith
  from False up low show ?thesis
    by (simp add: round_to_53_bits_def Let_def sh_def [symmetric] q_def [symmetric])
qed

lemma round_to_53_bits_lower:
  assumes "2 ^ k \<le> m"
  shows "2 ^ k \<le> round_to_53_bits m"
proof (cases "bit_length m \<le> 53")
  case True
  with assms show ?thesis by (simp add: round_to_53_bits_def)
next
  case False
  define sh where "sh = bit_length m - 53"
  define q where "q = m div 2 ^ sh"
  from False have e: "bit_length m = sh + 53" by (simp add: sh_def)
  from bit_length_gt [OF assms] e have k: "k \<le> sh + 52" by simp
  have "2 ^ (sh + 52) \<le> m" using two_power_bit_length_le [of m] e by (simp add: add.commute)
  then have "2 ^ 52 * 2 ^ sh \<le> m" by (simp add: power_add mult.commute)
  then have "2 ^ 52 \<le> q" unfolding q_def by (simp add: less_eq_div_iff_mult_less_eq)
  then have a: "2 ^ 52 * 2 ^ sh \<le> q * 2 ^ sh" by (rule mult_right_mono) simp
  have "(2::nat) ^ k \<le> 2 ^ (sh + 52)" using k by (simp add: power_increasing)
  also have "\<dots> = 2 ^ 52 * 2 ^ sh" by (simp only: power_add mult.commute)
  also note a
  finally have low: "2 ^ k \<le> q * 2 ^ sh" .
  have "q * 2 ^ sh \<le> (q + 1) * 2 ^ sh" by simp
  with low have up: "2 ^ k \<le> (q + 1) * 2 ^ sh" by linarith
  from False up low show ?thesis
    by (simp add: round_to_53_bits_def Let_def sh_def [symmetric] q_def [symmetric])
qed


lemma int_truediv_2_exact:
  assumes "\<bar>n\<bar> < 2 ^ 53"
  shows "int_truediv_2 n = Inr (Float64 n (- 1))"
proof -
  from assms have m: "nat \<bar>n\<bar> < 2 ^ 53" by (simp add: nat_less_iff)
  then have r: "round_to_53_bits (nat \<bar>n\<bar>) = nat \<bar>n\<bar>" by (rule round_to_53_bits_small)
  have "(2::nat) ^ 53 \<le> 2 ^ 1025" by (rule power_increasing) simp_all
  with m have "\<not> 2 ^ 1025 \<le> nat \<bar>n\<bar>" by linarith
  moreover have "sgn n * int (nat \<bar>n\<bar>) = n" by (simp add: mult_sgn_abs)
  ultimately show ?thesis by (simp only: int_truediv_2_def r Let_def if_False)
qed

lemma math_floor_half: "math_floor (Float64 s (- 1)) = s div 2"
  by (simp add: math_floor_def)

lemma int_truediv_2_overflow:
  assumes "2 ^ 1025 \<le> \<bar>n\<bar>"
  shows "int_truediv_2 n = Inl OverflowError"
proof -
  from assms have "2 ^ 1025 \<le> nat \<bar>n\<bar>" by (simp add: le_nat_iff)
  then have "2 ^ 1025 \<le> round_to_53_bits (nat \<bar>n\<bar>)" by (rule round_to_53_bits_lower)
  then show ?thesis by (simp only: int_truediv_2_def Let_def if_True)
qed

lemma int_truediv_2_returns:
  assumes "\<bar>n\<bar> < 2 ^ 1024"
  shows "int_truediv_2 n = Inr (Float64 (sgn n * int (round_to_53_bits (nat \<bar>n\<bar>))) (- 1))"
proof -
  from assms have "nat \<bar>n\<bar> < 2 ^ 1024" by (simp add: nat_less_iff)
  then have "round_to_53_bits (nat \<bar>n\<bar>) \<le> 2 ^ 1024" by (rule round_to_53_bits_upper)
  moreover have "(2::nat) ^ 1024 < 2 ^ 1025" by (rule power_strict_increasing) simp_all
  ultimately have "\<not> 2 ^ 1025 \<le> round_to_53_bits (nat \<bar>n\<bar>)" by linarith
  then show ?thesis by (simp only: int_truediv_2_def Let_def if_False)
qed


section \<open>The two calculations return unless the half overflows\<close>

lemma calculate_distributable_amount_returns:
  "\<bar>goodwill i\<bar> < 2 ^ 1024 \<Longrightarrow> \<exists>r. calculate_distributable_amount i = Inr r"
  by (simp add: calculate_distributable_amount_def Let_def int_truediv_2_returns)

lemma calc_button_returns:
  "\<bar>goodwill i\<bar> < 2 ^ 1024 \<Longrightarrow> \<exists>a. calc_button i = Inr a"
  by (simp add: calc_button_def Let_def int_truediv_2_returns)

lemma calculate_distributable_amount_overflow:
  "2 ^ 1025 \<le> \<bar>goodwill i\<bar> \<Longrightarrow> calculate_distributable_amount i = Inl OverflowError"
  by (simp add: calculate_distributable_amount_def Let_def int_truediv_2_overflow)

lemma calc_button_overflow:
  "2 ^ 1025 \<le> \<bar>goodwill i\<bar> \<Longrightarrow> calc_button i = Inl OverflowError"
  by (simp add: calc_button_def Let_def int_truediv_2_overflow)


section \<open>The test suite's cases, evaluated\<close>

lemma complex_case_eval:
  "calculate_distributable_amount complex_case = Inr complex_case_result"
  unfolding complex_case_def defaults_def complex_case_result_def
  by (simp add: calculate_distributable_amount_def Let_def int_truediv_2_exact math_floor_half)

lemma complex_case_stored_eval:
  "calc_button complex_case = Inr complex_case_stored"
  unfolding complex_case_def defaults_def complex_case_stored_def
  by (simp add: calc_button_def Let_def int_truediv_2_exact math_floor_half)


section \<open>The final sum\<close>

text \<open>
  Claim C1. Whenever either calculation returns its dictionary, the
  \<^verbatim>\<open>distributable_amount\<close> in it is the sum, with the signs of the last step, of the
  ten other terms of the same dictionary.
\<close>

theorem distributable_amount_is_sum_of_terms:
  "(calculate_distributable_amount i = Inr r \<longrightarrow>
      distributable_amount r =
        surplus_amount r + treasury_stock_adjustments r + capital_reserve_adjustments r
        + dividend_adjustments r - treasury_stock_abs r + additional_treasury_adjustments r
        + interim_settlement_adjustments r - goodwill_deferred_deduction r
        + valuation_adjustments r - net_assets_adjustment r)
   \<and> (calc_button i = Inr a \<longrightarrow>
      distributable_amount a =
        surplus_amount a + treasury_stock_adjustments a + capital_reserve_adjustments a
        + dividend_adjustments a - treasury_stock_abs a + additional_treasury_adjustments a
        + interim_settlement_adjustments a - goodwill_deferred_deduction a
        + valuation_adjustments a - net_assets_adjustment a)"
  by (auto simp add: calculate_distributable_amount_def calc_button_def Let_def
      split: sum.splits split del: if_split)

theorem distributable_amount_is_sum_of_terms_witness:
  "calculate_distributable_amount complex_case = Inr complex_case_result
   \<and> calc_button complex_case = Inr complex_case_stored
   \<and> distributable_amount complex_case_result =
        surplus_amount complex_case_result + treasury_stock_adjustments complex_case_result
        + capital_reserve_adjustments complex_case_result
        + dividend_adjustments complex_case_result - treasury_stock_abs complex_case_result
        + additional_treasury_adjustments complex_case_result
        + interim_settlement_adjustments complex_case_result
        - goodwill_deferred_deduction complex_case_result
        + valuation_adjustments complex_case_result
        - net_assets_adjustment complex_case_result
   \<and> distributable_amount complex_case_stored =
        surplus_amount complex_case_stored + treasury_stock_adjustments complex_case_stored
        + capital_reserve_adjustments complex_case_stored
        + dividend_adjustments complex_case_stored - treasury_stock_abs complex_case_stored
        + additional_treasury_adjustments complex_case_stored
        + interim_settlement_adjustments complex_case_stored
        - goodwill_deferred_deduction complex_case_stored
        + valuation_adjustments complex_case_stored
        - net_assets_adjustment complex_case_stored"
  using distributable_amount_is_sum_of_terms
          [of complex_case complex_case_result complex_case_stored]
        complex_case_eval complex_case_stored_eval
  by blast


section \<open>Treasury stock\<close>

text \<open>
  The two calculations differ in \<^verbatim>\<open>treasury_stock_abs\<close>. On the arguments of
  \<^verbatim>\<open>test_complex_case\<close> the reference calculation of test.py returns 2,000,000, as
  that test asserts, where the absolute value of the treasury stock is 3,000,000.
\<close>

theorem reference_treasury_stock_abs_differs:
  "calculate_distributable_amount complex_case = Inr complex_case_result
   \<and> treasury_stock_abs complex_case_result = 2000000
   \<and> \<bar>treasury_stock complex_case\<bar> = 3000000
   \<and> treasury_stock_abs complex_case_result \<noteq> \<bar>treasury_stock complex_case\<bar>"
  using complex_case_eval
  by (simp add: complex_case_result_def complex_case_def defaults_def)

text \<open>
  Claim C3, as amended. The dictionary app.py stores has \<^verbatim>\<open>treasury_stock_abs\<close> equal
  to the absolute value of the treasury stock alone. The dictionary the reference
  calculation of test.py returns has it equal to that absolute value less the book value
  of the disposed treasury stock, so the two agree when nothing was disposed of. In both,
  \<^verbatim>\<open>additional_treasury_adjustments\<close> is the disposal consideration negated.
\<close>

theorem treasury_stock_terms:
  "(calc_button i = Inr a \<longrightarrow>
      treasury_stock_abs a = \<bar>treasury_stock i\<bar>
      \<and> additional_treasury_adjustments a = - disposal_consideration i)
   \<and> (calculate_distributable_amount i = Inr r \<longrightarrow>
      treasury_stock_abs r = \<bar>treasury_stock i\<bar> - disposal_treasury_stock i
      \<and> additional_treasury_adjustments r = - disposal_consideration i
      \<and> (disposal_treasury_stock i = 0 \<longrightarrow> treasury_stock_abs r = \<bar>treasury_stock i\<bar>))"
  by (auto simp add: calculate_distributable_amount_def calc_button_def Let_def
      split: sum.splits split del: if_split)

theorem treasury_stock_terms_witness:
  "calc_button complex_case = Inr complex_case_stored
   \<and> calculate_distributable_amount complex_case = Inr complex_case_result
   \<and> treasury_stock_abs complex_case_stored = \<bar>treasury_stock complex_case\<bar>
   \<and> additional_treasury_adjustments complex_case_stored
       = - disposal_consideration complex_case
   \<and> treasury_stock_abs complex_case_result
       = \<bar>treasury_stock complex_case\<bar> - disposal_treasury_stock complex_case
   \<and> additional_treasury_adjustments complex_case_result
       = - disposal_consideration complex_case
   \<and> disposal_treasury_stock basic_case = 0
   \<and> (\<exists>r. calculate_distributable_amount basic_case = Inr r
          \<and> treasury_stock_abs r = \<bar>treasury_stock basic_case\<bar>)"
proof -
  have none: "disposal_treasury_stock basic_case = 0"
    by (simp add: basic_case_def defaults_def)
  obtain r where r: "calculate_distributable_amount basic_case = Inr r"
    using calculate_distributable_amount_returns [of basic_case]
    by (auto simp add: basic_case_def defaults_def)
  from treasury_stock_terms [of complex_case complex_case_stored complex_case_result]
       treasury_stock_terms [of basic_case complex_case_stored r]
       complex_case_eval complex_case_stored_eval none r
  show ?thesis by blast
qed


section \<open>The minimum of net assets\<close>

text \<open>
  Claim C4. With the net assets the sum of capital stock, the two reserves, the two other
  surpluses and the treasury stock, the returned \<^verbatim>\<open>net_assets_adjustment\<close> is what the
  net assets lack to 3,000,000, and 0 when they lack nothing. So it is never negative, the
  distributable amount never exceeds the sum of the other nine terms, net assets of exactly
  3,000,000 give 0 and net assets of 2,999,999 give 1.
\<close>

theorem net_assets_adjustment_floor:
  "(let net_assets =
          capital_stock i + capital_reserve i + earned_reserve i
          + other_capital_surplus i + other_retained_earnings i + treasury_stock i
    in (calculate_distributable_amount i = Inr r \<longrightarrow>
          net_assets_adjustment r = (if net_assets < 3000000 then 3000000 - net_assets else 0)
          \<and> 0 \<le> net_assets_adjustment r
          \<and> distributable_amount r \<le>
              surplus_amount r + treasury_stock_adjustments r + capital_reserve_adjustments r
              + dividend_adjustments r - treasury_stock_abs r
              + additional_treasury_adjustments r + interim_settlement_adjustments r
              - goodwill_deferred_deduction r + valuation_adjustments r
          \<and> (net_assets = 3000000 \<longrightarrow> net_assets_adjustment r = 0)
          \<and> (net_assets = 2999999 \<longrightarrow> net_assets_adjustment r = 1))
     \<and> (calc_button i = Inr a \<longrightarrow>
          net_assets_adjustment a = (if net_assets < 3000000 then 3000000 - net_assets else 0)
          \<and> 0 \<le> net_assets_adjustment a
          \<and> distributable_amount a \<le>
              surplus_amount a + treasury_stock_adjustments a + capital_reserve_adjustments a
              + dividend_adjustments a - treasury_stock_abs a
              + additional_treasury_adjustments a + interim_settlement_adjustments a
              - goodwill_deferred_deduction a + valuation_adjustments a
          \<and> (net_assets = 3000000 \<longrightarrow> net_assets_adjustment a = 0)
          \<and> (net_assets = 2999999 \<longrightarrow> net_assets_adjustment a = 1)))"
proof -
  define net_assets where
    "net_assets =
       capital_stock i + capital_reserve i + earned_reserve i
       + other_capital_surplus i + other_retained_earnings i + treasury_stock i"
  have reference:
    "net_assets_adjustment r = (if net_assets < 3000000 then 3000000 - net_assets else 0)
     \<and> distributable_amount r =
        surplus_amount r + treasury_stock_adjustments r + capital_reserve_adjustments r
        + dividend_adjustments r - treasury_stock_abs r + additional_treasury_adjustments r
        + interim_settlement_adjustments r - goodwill_deferred_deduction r
        + valuation_adjustments r - net_assets_adjustment r"
    if "calculate_distributable_amount i = Inr r"
    using that unfolding net_assets_def
    by (auto simp add: calculate_distributable_amount_def Let_def
        split: sum.splits split del: if_split)
  have app:
    "net_assets_adjustment a = (if net_assets < 3000000 then 3000000 - net_assets else 0)
     \<and> distributable_amount a =
        surplus_amount a + treasury_stock_adjustments a + capital_reserve_adjustments a
        + dividend_adjustments a - treasury_stock_abs a + additional_treasury_adjustments a
        + interim_settlement_adjustments a - goodwill_deferred_deduction a
        + valuation_adjustments a - net_assets_adjustment a"
    if "calc_button i = Inr a"
    using that unfolding net_assets_def
    by (auto simp add: calc_button_def Let_def split: sum.splits split del: if_split)
  show ?thesis
    unfolding Let_def net_assets_def [symmetric]
    using reference app by (auto split: if_splits)
qed

theorem net_assets_adjustment_floor_witness:
  "\<exists>r a r' a'.
     calculate_distributable_amount exact_minimum_case = Inr r
     \<and> calc_button exact_minimum_case = Inr a
     \<and> calculate_distributable_amount below_minimum_case = Inr r'
     \<and> calc_button below_minimum_case = Inr a'
     \<and> net_assets_adjustment r = 0 \<and> net_assets_adjustment a = 0
     \<and> net_assets_adjustment r' = 1 \<and> net_assets_adjustment a' = 1"
proof -
  obtain r where r: "calculate_distributable_amount exact_minimum_case = Inr r"
    using calculate_distributable_amount_returns [of exact_minimum_case]
    by (auto simp add: exact_minimum_case_def defaults_def)
  obtain a where a: "calc_button exact_minimum_case = Inr a"
    using calc_button_returns [of exact_minimum_case]
    by (auto simp add: exact_minimum_case_def defaults_def)
  obtain r' where r': "calculate_distributable_amount below_minimum_case = Inr r'"
    using calculate_distributable_amount_returns [of below_minimum_case]
    by (auto simp add: below_minimum_case_def defaults_def)
  obtain a' where a': "calc_button below_minimum_case = Inr a'"
    using calc_button_returns [of below_minimum_case]
    by (auto simp add: below_minimum_case_def defaults_def)
  from net_assets_adjustment_floor [of exact_minimum_case r a] r a
  have "net_assets_adjustment r = 0 \<and> net_assets_adjustment a = 0"
    by (simp add: Let_def exact_minimum_case_def defaults_def)
  moreover from net_assets_adjustment_floor [of below_minimum_case r' a'] r' a'
  have "net_assets_adjustment r' = 1 \<and> net_assets_adjustment a' = 1"
    by (simp add: Let_def below_minimum_case_def defaults_def)
  ultimately show ?thesis using r a r' a' by blast
qed



section \<open>Valuation differences\<close>

text \<open>
  Claim C5. The returned \<^verbatim>\<open>valuation_adjustments\<close> is the securities valuation
  difference when that is negative plus the land revaluation difference when that is
  negative, so it is never positive; and replacing a valuation difference that is not
  negative by any other value that is not negative leaves the distributable amount (or the
  failure of the run) as it was.
\<close>

theorem valuation_adjustments_only_negative:
  "(calculate_distributable_amount i = Inr r \<longrightarrow>
      valuation_adjustments r =
        (if securities_valuation i < 0 then securities_valuation i else 0)
        + (if land_revaluation i < 0 then land_revaluation i else 0)
      \<and> valuation_adjustments r \<le> 0)
   \<and> (calc_button i = Inr a \<longrightarrow>
      valuation_adjustments a =
        (if securities_valuation i < 0 then securities_valuation i else 0)
        + (if land_revaluation i < 0 then land_revaluation i else 0)
      \<and> valuation_adjustments a \<le> 0)
   \<and> (0 \<le> securities_valuation i \<and> 0 \<le> v \<longrightarrow>
      map_sum id distributable_amount
          (calculate_distributable_amount (i\<lparr>securities_valuation := v\<rparr>))
        = map_sum id distributable_amount (calculate_distributable_amount i)
      \<and> map_sum id distributable_amount (calc_button (i\<lparr>securities_valuation := v\<rparr>))
        = map_sum id distributable_amount (calc_button i))
   \<and> (0 \<le> land_revaluation i \<and> 0 \<le> v \<longrightarrow>
      map_sum id distributable_amount
          (calculate_distributable_amount (i\<lparr>land_revaluation := v\<rparr>))
        = map_sum id distributable_amount (calculate_distributable_amount i)
      \<and> map_sum id distributable_amount (calc_button (i\<lparr>land_revaluation := v\<rparr>))
        = map_sum id distributable_amount (calc_button i))"
proof (intro conjI impI)
  assume "calculate_distributable_amount i = Inr r"
  then have "valuation_adjustments r =
        (if securities_valuation i < 0 then securities_valuation i else 0)
        + (if land_revaluation i < 0 then land_revaluation i else 0)"
    by (auto simp add: calculate_distributable_amount_def Let_def split: sum.splits)
  then show "valuation_adjustments r =
        (if securities_valuation i < 0 then securities_valuation i else 0)
        + (if land_revaluation i < 0 then land_revaluation i else 0)"
    and "valuation_adjustments r \<le> 0"
    by (simp_all split: if_splits)
next
  assume "calc_button i = Inr a"
  then have "valuation_adjustments a =
        (if securities_valuation i < 0 then securities_valuation i else 0)
        + (if land_revaluation i < 0 then land_revaluation i else 0)"
    by (auto simp add: calc_button_def Let_def split: sum.splits)
  then show "valuation_adjustments a =
        (if securities_valuation i < 0 then securities_valuation i else 0)
        + (if land_revaluation i < 0 then land_revaluation i else 0)"
    and "valuation_adjustments a \<le> 0"
    by (simp_all split: if_splits)
next
  assume "0 \<le> securities_valuation i \<and> 0 \<le> v"
  then show
    "map_sum id distributable_amount
        (calculate_distributable_amount (i\<lparr>securities_valuation := v\<rparr>))
      = map_sum id distributable_amount (calculate_distributable_amount i)"
    and "map_sum id distributable_amount (calc_button (i\<lparr>securities_valuation := v\<rparr>))
      = map_sum id distributable_amount (calc_button i)"
    by (simp_all add: calculate_distributable_amount_def calc_button_def Let_def
        split: sum.splits split del: if_split cong: if_cong)
next
  assume "0 \<le> land_revaluation i \<and> 0 \<le> v"
  then show
    "map_sum id distributable_amount
        (calculate_distributable_amount (i\<lparr>land_revaluation := v\<rparr>))
      = map_sum id distributable_amount (calculate_distributable_amount i)"
    and "map_sum id distributable_amount (calc_button (i\<lparr>land_revaluation := v\<rparr>))
      = map_sum id distributable_amount (calc_button i)"
    by (simp_all add: calculate_distributable_amount_def calc_button_def Let_def
        split: sum.splits split del: if_split cong: if_cong)
qed

theorem valuation_adjustments_only_negative_witness:
  "calculate_distributable_amount complex_case = Inr complex_case_result
   \<and> calc_button complex_case = Inr complex_case_stored
   \<and> valuation_adjustments complex_case_result \<le> 0
   \<and> valuation_adjustments complex_case_stored \<le> 0
   \<and> 0 \<le> land_revaluation complex_case
   \<and> map_sum id distributable_amount
          (calculate_distributable_amount (complex_case\<lparr>land_revaluation := 7\<rparr>))
        = map_sum id distributable_amount (calculate_distributable_amount complex_case)
   \<and> map_sum id distributable_amount (calc_button (complex_case\<lparr>land_revaluation := 7\<rparr>))
        = map_sum id distributable_amount (calc_button complex_case)
   \<and> 0 \<le> securities_valuation basic_case
   \<and> map_sum id distributable_amount
          (calculate_distributable_amount (basic_case\<lparr>securities_valuation := 7\<rparr>))
        = map_sum id distributable_amount (calculate_distributable_amount basic_case)
   \<and> map_sum id distributable_amount (calc_button (basic_case\<lparr>securities_valuation := 7\<rparr>))
        = map_sum id distributable_amount (calc_button basic_case)"
proof -
  have land: "0 \<le> land_revaluation complex_case \<and> (0::int) \<le> 7"
    by (simp add: complex_case_def defaults_def)
  have securities: "0 \<le> securities_valuation basic_case \<and> (0::int) \<le> 7"
    by (simp add: basic_case_def defaults_def)
  from valuation_adjustments_only_negative
         [of complex_case complex_case_result complex_case_stored 7]
       valuation_adjustments_only_negative
         [of basic_case complex_case_result complex_case_stored 7]
       complex_case_eval complex_case_stored_eval land securities
  show ?thesis by blast
qed


section \<open>Interim settlement\<close>

text \<open>
  Claim C6. The returned \<^verbatim>\<open>interim_settlement_adjustments\<close> is interim profit minus
  interim loss plus the interim disposal consideration when the flag is set and 0 when it is
  not; and without the flag, a run with any other values of these three inputs has the
  same outcome, dictionary or failure.
\<close>

theorem interim_inputs_only_when_flagged:
  "(calculate_distributable_amount i = Inr r \<longrightarrow>
      interim_settlement_adjustments r =
        (if interim_settlement i
         then interim_profit i - interim_loss i + interim_treasury_disposal i else 0))
   \<and> (calc_button i = Inr a \<longrightarrow>
      interim_settlement_adjustments a =
        (if interim_settlement i
         then interim_profit i - interim_loss i + interim_treasury_disposal i else 0))
   \<and> (\<not> interim_settlement i \<longrightarrow>
      calculate_distributable_amount
          (i\<lparr>interim_profit := p, interim_loss := l, interim_treasury_disposal := d\<rparr>)
        = calculate_distributable_amount i
      \<and> calc_button
          (i\<lparr>interim_profit := p, interim_loss := l, interim_treasury_disposal := d\<rparr>)
        = calc_button i)"
  by (auto simp add: calculate_distributable_amount_def calc_button_def Let_def
      split: sum.splits split del: if_split cong: if_cong)

theorem interim_inputs_only_when_flagged_witness:
  "calculate_distributable_amount complex_case = Inr complex_case_result
   \<and> calc_button complex_case = Inr complex_case_stored
   \<and> interim_settlement complex_case
   \<and> interim_settlement_adjustments complex_case_result =
        interim_profit complex_case - interim_loss complex_case
        + interim_treasury_disposal complex_case
   \<and> interim_settlement_adjustments complex_case_stored =
        interim_profit complex_case - interim_loss complex_case
        + interim_treasury_disposal complex_case
   \<and> \<not> interim_settlement basic_case
   \<and> calculate_distributable_amount
          (basic_case\<lparr>interim_profit := 5000000, interim_loss := 2000000,
                       interim_treasury_disposal := 1000000\<rparr>)
        = calculate_distributable_amount basic_case
   \<and> calc_button
          (basic_case\<lparr>interim_profit := 5000000, interim_loss := 2000000,
                       interim_treasury_disposal := 1000000\<rparr>)
        = calc_button basic_case"
proof -
  have flagged: "interim_settlement complex_case"
    by (simp add: complex_case_def defaults_def)
  have plain: "\<not> interim_settlement basic_case"
    by (simp add: basic_case_def defaults_def)
  from interim_inputs_only_when_flagged
         [where i = complex_case and r = complex_case_result and a = complex_case_stored]
       interim_inputs_only_when_flagged
         [where i = basic_case and p = 5000000 and l = 2000000 and d = 1000000]
       complex_case_eval complex_case_stored_eval flagged plain
  show ?thesis by auto
qed


section \<open>The two variants of the treasury stock term\<close>

text \<open>
  Claim C10. The two calculations fail on the same inputs, and where they return, the
  distributable amount of the reference calculation is that of the calculation behind the
  button plus the book value of the disposed treasury stock; they agree when that is 0. The
  amount of the reference calculation does not depend on that book value at all.
\<close>

theorem reference_amount_is_app_amount_plus_disposal:
  "map_sum id distributable_amount (calculate_distributable_amount i)
     = map_sum id (\<lambda>a. distributable_amount a + disposal_treasury_stock i) (calc_button i)
   \<and> (disposal_treasury_stock i = 0 \<longrightarrow>
        map_sum id distributable_amount (calculate_distributable_amount i)
          = map_sum id distributable_amount (calc_button i))
   \<and> map_sum id distributable_amount
        (calculate_distributable_amount (i\<lparr>disposal_treasury_stock := d\<rparr>))
     = map_sum id distributable_amount (calculate_distributable_amount i)"
  by (auto simp add: calculate_distributable_amount_def calc_button_def Let_def
      split: sum.splits split del: if_split cong: if_cong)

theorem reference_amount_is_app_amount_plus_disposal_witness:
  "disposal_treasury_stock basic_case = 0
   \<and> map_sum id distributable_amount (calculate_distributable_amount basic_case)
       = map_sum id distributable_amount (calc_button basic_case)
   \<and> map_sum id distributable_amount (calculate_distributable_amount complex_case)
       = map_sum id (\<lambda>a. distributable_amount a + disposal_treasury_stock complex_case)
           (calc_button complex_case)"
proof -
  have none: "disposal_treasury_stock basic_case = 0"
    by (simp add: basic_case_def defaults_def)
  from reference_amount_is_app_amount_plus_disposal [of basic_case 0]
       reference_amount_is_app_amount_plus_disposal [of complex_case 0] none
  show ?thesis by blast
qed



section \<open>The half of the goodwill\<close>

text \<open>
  Below \<open>2 ^ 53\<close> the float quotient is exact, and \<^verbatim>\<open>math.floor(goodwill / 2)\<close> is
  the integer half, rounded down.
\<close>

theorem goodwill_half_exact_below_2_53:
  "\<bar>n\<bar> < 2 ^ 53 \<Longrightarrow> map_sum id math_floor (int_truediv_2 n) = Inr (n div 2)"
  by (simp add: int_truediv_2_exact math_floor_half)

theorem goodwill_half_exact_below_2_53_witness:
  "\<bar>50000000 :: int\<bar> < 2 ^ 53
   \<and> map_sum id math_floor (int_truediv_2 50000000) = Inr 25000000"
proof -
  have small: "\<bar>50000000 :: int\<bar> < 2 ^ 53" by simp
  from goodwill_half_exact_below_2_53 [OF small] small show ?thesis by simp
qed

text \<open>
  Claim C7. \<^verbatim>\<open>math.floor(goodwill / 2)\<close> is not the integer half for every goodwill that
  is not negative: for \<open>2 ^ 53 + 3\<close> the exact quotient \<open>2 ^ 52 + 1.5\<close> is no binary64
  float, the division returns \<open>2 ^ 52 + 2\<close>, and the floor is one more than
  \<^verbatim>\<open>goodwill // 2\<close>.
\<close>

theorem rounding_case_half:
  "0 \<le> goodwill rounding_case
   \<and> map_sum id math_floor (int_truediv_2 (goodwill rounding_case)) = Inr 4503599627370498
   \<and> goodwill rounding_case div 2 = 4503599627370497"
  unfolding rounding_case_def defaults_def
  by (simp add: int_truediv_2_def round_to_53_bits_def math_floor_def
      bit_length_numeral_step Let_def)


section \<open>The deduction of goodwill and deferred assets\<close>

text \<open>
  With a goodwill below \<open>2 ^ 53\<close>, the returned \<^verbatim>\<open>goodwill_deferred_deduction\<close>
  follows the ladder of four branches on the integer half of the goodwill, each boundary
  included.
\<close>

theorem goodwill_deferred_deduction_ladder:
  "\<bar>goodwill i\<bar> < 2 ^ 53 \<Longrightarrow>
     (let goodwill_half = goodwill i div 2;
          goodwill_deferred_total = goodwill_half + deferred_assets i;
          capital_reserve_total = capital_stock i + capital_reserve i + earned_reserve i;
          deduction =
            (if goodwill_deferred_total \<le> capital_reserve_total then 0
             else if goodwill_deferred_total \<le> capital_reserve_total + other_capital_surplus i
               then goodwill_deferred_total - capital_reserve_total
             else if goodwill_half \<le> capital_reserve_total + other_capital_surplus i
               then goodwill_deferred_total - capital_reserve_total
             else other_capital_surplus i + deferred_assets i)
      in map_sum id goodwill_deferred_deduction (calculate_distributable_amount i)
           = Inr deduction
         \<and> map_sum id goodwill_deferred_deduction (calc_button i) = Inr deduction)"
  by (simp add: calculate_distributable_amount_def calc_button_def Let_def
      int_truediv_2_exact math_floor_half split del: if_split)

theorem goodwill_deferred_deduction_ladder_witness:
  "\<bar>goodwill goodwill_case_4\<bar> < 2 ^ 53
   \<and> map_sum id goodwill_deferred_deduction (calculate_distributable_amount goodwill_case_4)
       = Inr 13000000
   \<and> map_sum id goodwill_deferred_deduction (calc_button goodwill_case_4) = Inr 13000000"
proof -
  have small: "\<bar>goodwill goodwill_case_4\<bar> < 2 ^ 53"
    by (simp add: goodwill_case_4_def defaults_def)
  from goodwill_deferred_deduction_ladder [OF small] small show ?thesis
    by (simp add: Let_def goodwill_case_4_def defaults_def)
qed

text \<open>
  Claim C2. The ladder is not followed for every goodwill and deferred assets that are not
  negative: with a goodwill of \<open>2 ^ 53 + 3\<close>, no deferred assets, and capital stock equal
  to the integer half of the goodwill, the total of the claim equals the capital and
  reserves, where the claim has a deduction of 0; both calculations return 1, the float
  half being one more.
\<close>

theorem rounding_case_deduction:
  "0 \<le> goodwill rounding_case \<and> 0 \<le> deferred_assets rounding_case
   \<and> goodwill rounding_case div 2 + deferred_assets rounding_case
       = capital_stock rounding_case + capital_reserve rounding_case
         + earned_reserve rounding_case
   \<and> map_sum id goodwill_deferred_deduction (calculate_distributable_amount rounding_case)
       = Inr 1
   \<and> map_sum id goodwill_deferred_deduction (calc_button rounding_case) = Inr 1"
  unfolding rounding_case_def defaults_def
  by (simp add: calculate_distributable_amount_def calc_button_def int_truediv_2_def
      round_to_53_bits_def math_floor_def bit_length_numeral_step Let_def)


section \<open>Totality\<close>

text \<open>
  With a goodwill below \<open>2 ^ 1024\<close> in absolute value, both calculations return a
  dictionary, whatever the other inputs.
\<close>

theorem calculations_return_below_2_1024:
  "\<bar>goodwill i\<bar> < 2 ^ 1024 \<Longrightarrow>
     (\<exists>r. calculate_distributable_amount i = Inr r) \<and> (\<exists>a. calc_button i = Inr a)"
  by (simp add: calculate_distributable_amount_returns calc_button_returns)

theorem calculations_return_below_2_1024_witness:
  "\<bar>goodwill defaults\<bar> < 2 ^ 1024
   \<and> (\<exists>r. calculate_distributable_amount defaults = Inr r)
   \<and> (\<exists>a. calc_button defaults = Inr a)"
proof -
  have small: "\<bar>goodwill defaults\<bar> < 2 ^ 1024" by (simp add: defaults_def)
  from calculations_return_below_2_1024 [OF small] small show ?thesis by blast
qed

text \<open>
  Claim C8. The calculation is not total: on a goodwill of \<open>2 ^ 1025\<close>, every other
  argument at its default, the division \<^verbatim>\<open>goodwill / 2\<close> raises OverflowError and no
  dictionary is returned; the same holds of every goodwill beyond.
\<close>

theorem overflow_case_raises:
  "calculate_distributable_amount overflow_case = Inl OverflowError
   \<and> calc_button overflow_case = Inl OverflowError"
proof -
  have "2 ^ 1025 \<le> \<bar>goodwill overflow_case\<bar>"
    by (simp add: overflow_case_def)
  then show ?thesis
    by (simp add: calculate_distributable_amount_overflow calc_button_overflow)
qed


end
